theory Spec2Isabelle
  imports Main
begin

section \<open>The two containers\<close>

text \<open>
  \<^verbatim>\<open>Result.Result<T, E> = { _tag: "Ok", value: T } | { _tag: "Err", error: E }\<close>
  is a closed two-variant tagged union; the constructors \<open>Ok\<close> and \<open>Err\<close> are the
  functions of the same name in \<^verbatim>\<open>Result.ts\<close>.
  \<^verbatim>\<open>Option.Option<T> = { __tag: "Some", value: T } | { __tag: "None" }\<close> is the
  type \<open>'a option\<close> of HOL, with the constructors \<open>Some\<close> and \<open>None\<close> as in
  \<^verbatim>\<open>Option.ts\<close>.
  Type parameters are erased when the program runs, so a union such as \<^verbatim>\<open>E | F\<close> is
  one type of errors here, and the tuple of values that \<open>combine\<close> builds is a list.
\<close>

datatype ('t, 'e) Result = Ok 't | Err 'e

text \<open>
  What a call can throw: \<^verbatim>\<open>new Error(message)\<close>, the only thing the library
  throws itself, and the \<^verbatim>\<open>TypeError\<close> of the platform, which
  \<^verbatim>\<open>JSON.stringify\<close> throws. Both carry their message.
\<close>

datatype error = Error string | TypeError string

text \<open>
  The result type \<^verbatim>\<open>unknown\<close> of \<open>intoOk\<close> and \<open>intoErr\<close>: a payload, or
  JavaScript's \<^verbatim>\<open>undefined\<close>.
\<close>

datatype 'a unknown = Defined 'a | Undefined

section \<open>Result.ts\<close>

fun isOk :: "('t, 'e) Result \<Rightarrow> bool" where
  "isOk (Ok v) = True"
| "isOk (Err e) = False"

fun isErr :: "('t, 'e) Result \<Rightarrow> bool" where
  "isErr (Ok v) = False"
| "isErr (Err e) = True"

text \<open>
  Every function of \<^verbatim>\<open>Result.ts\<close> follows, in the order of the file and under its
  own name behind the namespace (\<open>Result.map\<close> is \<open>Result_map\<close>). A curried
  function \<^verbatim>\<open>f(a)(self)\<close> takes \<open>self\<close> last. A test of the tag followed by a
  read of \<^verbatim>\<open>self.value\<close> or \<^verbatim>\<open>self.error\<close> is a pattern match, and the
  equations keep the order of the tests. A \<^verbatim>\<open>throw\<close> is the left injection of a
  sum, and a function without one has a plain result type. The callbacks of this
  section return; the section after it reads the same functions with callbacks that
  may throw.
\<close>

fun Result_isOkAnd :: "('t \<Rightarrow> bool) \<Rightarrow> ('t, 'e) Result \<Rightarrow> bool" where
  "Result_isOkAnd predicate (Err e) = False"
| "Result_isOkAnd predicate (Ok v) = predicate v"

fun Result_isErrAnd :: "('e \<Rightarrow> bool) \<Rightarrow> ('t, 'e) Result \<Rightarrow> bool" where
  "Result_isErrAnd predicate (Ok v) = False"
| "Result_isErrAnd predicate (Err e) = predicate e"

text \<open>
  \<open>combine\<close>: the loop over the argument array, with the array \<^verbatim>\<open>values\<close> it
  pushes to as the accumulator. The first argument that is not \<open>Ok\<close> is returned at
  once.
\<close>

fun combine_loop :: "'t list \<Rightarrow> ('t, 'e) Result list \<Rightarrow> ('t list, 'e) Result" where
  "combine_loop values [] = Ok values"
| "combine_loop values (Ok v # results) = combine_loop (values @ [v]) results"
| "combine_loop values (Err e # results) = Err e"

definition Result_combine :: "('t, 'e) Result list \<Rightarrow> ('t list, 'e) Result" where
  "Result_combine results = combine_loop [] results"

fun Result_map :: "('t \<Rightarrow> 'u) \<Rightarrow> ('t, 'e) Result \<Rightarrow> ('u, 'e) Result" where
  "Result_map fn (Err e) = Err e"
| "Result_map fn (Ok v) = Ok (fn v)"

fun Result_mapErr :: "('e \<Rightarrow> 'f) \<Rightarrow> ('t, 'e) Result \<Rightarrow> ('t, 'f) Result" where
  "Result_mapErr fn (Ok v) = Ok v"
| "Result_mapErr fn (Err e) = Err (fn e)"

fun Result_mapOr :: "'u \<Rightarrow> ('t \<Rightarrow> 'u) \<Rightarrow> ('t, 'e) Result \<Rightarrow> ('u, 'e) Result" where
  "Result_mapOr defaultValue fn (Err e) = Ok defaultValue"
| "Result_mapOr defaultValue fn (Ok v) = Ok (fn v)"

fun Result_mapOrElse :: "('e \<Rightarrow> 'u) \<Rightarrow> ('t \<Rightarrow> 'u) \<Rightarrow> ('t, 'e) Result \<Rightarrow> ('u, 'e) Result" where
  "Result_mapOrElse fnWhenFailure fnWhenSuccess (Err e) = Ok (fnWhenFailure e)"
| "Result_mapOrElse fnWhenFailure fnWhenSuccess (Ok v) = Ok (fnWhenSuccess v)"

fun Result_andThen :: "('t \<Rightarrow> ('u, 'e) Result) \<Rightarrow> ('t, 'e) Result \<Rightarrow> ('u, 'e) Result" where
  "Result_andThen fn (Err e) = Err e"
| "Result_andThen fn (Ok v) = fn v"

fun Result_and :: "('u, 'e) Result \<Rightarrow> ('t, 'e) Result \<Rightarrow> ('u, 'e) Result" where
  "Result_and result (Err e) = Err e"
| "Result_and result (Ok v) = result"

fun Result_ok :: "('t, 'e) Result \<Rightarrow> 't option" where
  "Result_ok (Err e) = None"
| "Result_ok (Ok v) = Some v"

text \<open>\<open>inspect\<close> and \<open>inspectErr\<close> call \<open>fn\<close> and drop what it returns.\<close>

fun Result_inspect :: "('t \<Rightarrow> 'x) \<Rightarrow> ('t, 'e) Result \<Rightarrow> ('t, 'e) Result" where
  "Result_inspect fn (Err e) = Err e"
| "Result_inspect fn (Ok v) = (let dropped = fn v in Ok v)"

fun Result_inspectErr :: "('e \<Rightarrow> 'x) \<Rightarrow> ('t, 'e) Result \<Rightarrow> ('t, 'e) Result" where
  "Result_inspectErr fn (Ok v) = Ok v"
| "Result_inspectErr fn (Err e) = (let dropped = fn e in Err e)"

fun Result_flatten :: "(('t, 'e) Result, 'e) Result \<Rightarrow> ('t, 'e) Result" where
  "Result_flatten (Err e) = Err e"
| "Result_flatten (Ok (Err e)) = Err e"
| "Result_flatten (Ok (Ok v)) = Ok v"

fun Result_intoOk :: "('t, 'e) Result \<Rightarrow> 't unknown" where
  "Result_intoOk (Ok v) = Defined v"
| "Result_intoOk (Err e) = Undefined"

fun Result_intoErr :: "('t, 'e) Result \<Rightarrow> 'e unknown" where
  "Result_intoErr (Err e) = Defined e"
| "Result_intoErr (Ok v) = Undefined"

text \<open>
  The four extractors throw. \<^verbatim>\<open>JSON.stringify\<close> belongs to the platform, not to
  the repository: it is the parameter \<open>stringify\<close>. A call of it ends in one of
  three ways: it returns a string, it returns \<^verbatim>\<open>undefined\<close> (for
  \<^verbatim>\<open>undefined\<close>, a function or a symbol), or it throws (a \<^verbatim>\<open>TypeError\<close>, for
  a \<^verbatim>\<open>BigInt\<close> or a circular structure), and what it throws leaves the extractor,
  which has no \<^verbatim>\<open>try\<close>. \<^verbatim>\<open>new Error(x)\<close> has the message \<open>x\<close>, and the
  empty message when \<open>x\<close> is \<^verbatim>\<open>undefined\<close>; the template
  \<^verbatim>\<open>`${message}: ${x}`\<close> is a concatenation, in which \<^verbatim>\<open>undefined\<close> reads
  \<^verbatim>\<open>undefined\<close>.
\<close>

fun new_Error :: "string unknown \<Rightarrow> error" where
  "new_Error (Defined message) = Error message"
| "new_Error Undefined = Error []"

fun interpolate :: "string unknown \<Rightarrow> string" where
  "interpolate (Defined text) = text"
| "interpolate Undefined = ''undefined''"

fun Result_expect ::
  "('e \<Rightarrow> error + string unknown) \<Rightarrow> string \<Rightarrow> ('t, 'e) Result \<Rightarrow> error + 't" where
  "Result_expect stringify message (Err e) =
     (case stringify e of
        Inl thrown \<Rightarrow> Inl thrown
      | Inr text \<Rightarrow> Inl (Error (message @ '': '' @ interpolate text)))"
| "Result_expect stringify message (Ok v) = Inr v"

fun Result_expectErr ::
  "('t \<Rightarrow> error + string unknown) \<Rightarrow> string \<Rightarrow> ('t, 'e) Result \<Rightarrow> error + 'e" where
  "Result_expectErr stringify message (Ok v) =
     (case stringify v of
        Inl thrown \<Rightarrow> Inl thrown
      | Inr text \<Rightarrow> Inl (Error (message @ '': '' @ interpolate text)))"
| "Result_expectErr stringify message (Err e) = Inr e"

fun Result_err :: "('t, 'e) Result \<Rightarrow> 'e option" where
  "Result_err (Ok v) = None"
| "Result_err (Err e) = Some e"

fun Result_or :: "('t, 'e) Result \<Rightarrow> ('t, 'e) Result \<Rightarrow> ('t, 'e) Result" where
  "Result_or other (Err e) = other"
| "Result_or other (Ok v) = Ok v"

fun Result_orElse :: "('e \<Rightarrow> ('t, 'f) Result) \<Rightarrow> ('t, 'e) Result \<Rightarrow> ('t, 'f) Result" where
  "Result_orElse fn (Ok v) = Ok v"
| "Result_orElse fn (Err e) = fn e"

fun Result_transpose :: "('t option, 'e) Result \<Rightarrow> ('t, 'e) Result option" where
  "Result_transpose (Ok None) = None"
| "Result_transpose (Ok (Some v)) = Some (Ok v)"
| "Result_transpose (Err e) = Some (Err e)"

fun Result_unwrap :: "('e \<Rightarrow> error + string unknown) \<Rightarrow> ('t, 'e) Result \<Rightarrow> error + 't" where
  "Result_unwrap stringify (Ok v) = Inr v"
| "Result_unwrap stringify (Err e) =
     (case stringify e of
        Inl thrown \<Rightarrow> Inl thrown
      | Inr text \<Rightarrow> Inl (new_Error text))"

fun Result_unwrapErr :: "('t \<Rightarrow> error + string unknown) \<Rightarrow> ('t, 'e) Result \<Rightarrow> error + 'e" where
  "Result_unwrapErr stringify (Err e) = Inr e"
| "Result_unwrapErr stringify (Ok v) =
     (case stringify v of
        Inl thrown \<Rightarrow> Inl thrown
      | Inr text \<Rightarrow> Inl (new_Error text))"

fun Result_unwrapOr :: "'t \<Rightarrow> ('t, 'e) Result \<Rightarrow> 't" where
  "Result_unwrapOr defaultValue (Err e) = defaultValue"
| "Result_unwrapOr defaultValue (Ok v) = v"

fun Result_unwrapOrElse :: "('e \<Rightarrow> 't) \<Rightarrow> ('t, 'e) Result \<Rightarrow> 't" where
  "Result_unwrapOrElse callback (Err e) = callback e"
| "Result_unwrapOrElse callback (Ok v) = v"

section \<open>Result.ts with callbacks that may throw\<close>

text \<open>
  A callback is a function of the caller's and may throw. No function of
  \<^verbatim>\<open>Result.ts\<close> has a \<^verbatim>\<open>try\<close>, so what a callback throws leaves the
  combinator that called it. The eleven functions that call a callback are read here
  with a callback that returns (\<open>Inr\<close>) or throws (\<open>Inl\<close>); each has the branches
  of its form above, and \<open>inspect\<close> and \<open>inspectErr\<close> still drop what the callback
  returns.
\<close>

fun Result_isOkAnd_cb :: "('t \<Rightarrow> error + bool) \<Rightarrow> ('t, 'e) Result \<Rightarrow> error + bool" where
  "Result_isOkAnd_cb predicate (Err e) = Inr False"
| "Result_isOkAnd_cb predicate (Ok v) = predicate v"

fun Result_isErrAnd_cb :: "('e \<Rightarrow> error + bool) \<Rightarrow> ('t, 'e) Result \<Rightarrow> error + bool" where
  "Result_isErrAnd_cb predicate (Ok v) = Inr False"
| "Result_isErrAnd_cb predicate (Err e) = predicate e"

fun Result_map_cb :: "('t \<Rightarrow> error + 'u) \<Rightarrow> ('t, 'e) Result \<Rightarrow> error + ('u, 'e) Result" where
  "Result_map_cb fn (Err e) = Inr (Err e)"
| "Result_map_cb fn (Ok v) =
     (case fn v of Inl thrown \<Rightarrow> Inl thrown | Inr u \<Rightarrow> Inr (Ok u))"

fun Result_mapErr_cb :: "('e \<Rightarrow> error + 'f) \<Rightarrow> ('t, 'e) Result \<Rightarrow> error + ('t, 'f) Result" where
  "Result_mapErr_cb fn (Ok v) = Inr (Ok v)"
| "Result_mapErr_cb fn (Err e) =
     (case fn e of Inl thrown \<Rightarrow> Inl thrown | Inr f \<Rightarrow> Inr (Err f))"

fun Result_mapOr_cb ::
  "'u \<Rightarrow> ('t \<Rightarrow> error + 'u) \<Rightarrow> ('t, 'e) Result \<Rightarrow> error + ('u, 'e) Result" where
  "Result_mapOr_cb defaultValue fn (Err e) = Inr (Ok defaultValue)"
| "Result_mapOr_cb defaultValue fn (Ok v) =
     (case fn v of Inl thrown \<Rightarrow> Inl thrown | Inr u \<Rightarrow> Inr (Ok u))"

fun Result_mapOrElse_cb ::
  "('e \<Rightarrow> error + 'u) \<Rightarrow> ('t \<Rightarrow> error + 'u) \<Rightarrow> ('t, 'e) Result \<Rightarrow> error + ('u, 'e) Result" where
  "Result_mapOrElse_cb fnWhenFailure fnWhenSuccess (Err e) =
     (case fnWhenFailure e of Inl thrown \<Rightarrow> Inl thrown | Inr u \<Rightarrow> Inr (Ok u))"
| "Result_mapOrElse_cb fnWhenFailure fnWhenSuccess (Ok v) =
     (case fnWhenSuccess v of Inl thrown \<Rightarrow> Inl thrown | Inr u \<Rightarrow> Inr (Ok u))"

fun Result_andThen_cb ::
  "('t \<Rightarrow> error + ('u, 'e) Result) \<Rightarrow> ('t, 'e) Result \<Rightarrow> error + ('u, 'e) Result" where
  "Result_andThen_cb fn (Err e) = Inr (Err e)"
| "Result_andThen_cb fn (Ok v) = fn v"

fun Result_inspect_cb :: "('t \<Rightarrow> error + 'x) \<Rightarrow> ('t, 'e) Result \<Rightarrow> error + ('t, 'e) Result" where
  "Result_inspect_cb fn (Err e) = Inr (Err e)"
| "Result_inspect_cb fn (Ok v) =
     (case fn v of Inl thrown \<Rightarrow> Inl thrown | Inr dropped \<Rightarrow> Inr (Ok v))"

fun Result_inspectErr_cb ::
  "('e \<Rightarrow> error + 'x) \<Rightarrow> ('t, 'e) Result \<Rightarrow> error + ('t, 'e) Result" where
  "Result_inspectErr_cb fn (Ok v) = Inr (Ok v)"
| "Result_inspectErr_cb fn (Err e) =
     (case fn e of Inl thrown \<Rightarrow> Inl thrown | Inr dropped \<Rightarrow> Inr (Err e))"

fun Result_orElse_cb ::
  "('e \<Rightarrow> error + ('t, 'f) Result) \<Rightarrow> ('t, 'e) Result \<Rightarrow> error + ('t, 'f) Result" where
  "Result_orElse_cb fn (Ok v) = Inr (Ok v)"
| "Result_orElse_cb fn (Err e) = fn e"

fun Result_unwrapOrElse_cb :: "('e \<Rightarrow> error + 't) \<Rightarrow> ('t, 'e) Result \<Rightarrow> error + 't" where
  "Result_unwrapOrElse_cb callback (Err e) = callback e"
| "Result_unwrapOrElse_cb callback (Ok v) = Inr v"

section \<open>JSON.stringify on a few payloads\<close>

text \<open>
  The theorems about the extractors hold for every behaviour of \<open>stringify\<close>. For
  inputs to run them on, here are four kinds of JavaScript values and what
  \<^verbatim>\<open>JSON.stringify\<close> does on them: \<^verbatim>\<open>undefined\<close> gives \<^verbatim>\<open>undefined\<close>,
  \<^verbatim>\<open>null\<close> and the booleans give their names, and a \<^verbatim>\<open>BigInt\<close> makes it throw
  a \<^verbatim>\<open>TypeError\<close> (with the message of Node, where the tests run).
\<close>

datatype js_value = JUndefined | JNull | JBoolean bool | JBigInt int

fun JSON_stringify :: "js_value \<Rightarrow> error + string unknown" where
  "JSON_stringify JUndefined = Inr Undefined"
| "JSON_stringify JNull = Inr (Defined ''null'')"
| "JSON_stringify (JBoolean b) = Inr (Defined (if b then ''true'' else ''false''))"
| "JSON_stringify (JBigInt n) = Inl (TypeError ''Do not know how to serialize a BigInt'')"

section \<open>Option.ts: the variant tests and the bridges to Result\<close>

fun Option_isSome :: "'a option \<Rightarrow> bool" where
  "Option_isSome (Some v) = True"
| "Option_isSome None = False"

fun Option_isNone :: "'a option \<Rightarrow> bool" where
  "Option_isNone (Some v) = False"
| "Option_isNone None = True"

fun Option_okOr :: "'e \<Rightarrow> 't option \<Rightarrow> ('t, 'e) Result" where
  "Option_okOr error None = Err error"
| "Option_okOr error (Some v) = Ok v"

fun Option_transpose :: "('t, 'e) Result option \<Rightarrow> ('t option, 'e) Result" where
  "Option_transpose None = Ok None"
| "Option_transpose (Some (Err e)) = Err e"
| "Option_transpose (Some (Ok v)) = Ok (Some v)"

section \<open>Containers as objects\<close>

text \<open>
  In the running program a container is a reference to an object, and two objects with
  the same tag and payload are still two objects (\<^verbatim>\<open>toBe\<close> in the tests compares
  references, \<^verbatim>\<open>toStrictEqual\<close> compares contents). Where the identity of the
  returned container matters, or whether a callback has run, the functions are read on
  references into a store: \<open>cells\<close> holds the object behind each reference, \<open>used\<close>
  counts the objects made so far, and \<open>world\<close> is whatever else a callback can change.
  A callback is a function on the store. The constructors make a new object; a
  function that does \<^verbatim>\<open>return self\<close> returns the reference it was given.
\<close>

type_synonym ref = nat

record ('t, 'e, 'w) store =
  cells :: "ref \<Rightarrow> ('t, 'e) Result"
  used :: nat
  world :: 'w

definition Ok_at :: "'t \<Rightarrow> ('t, 'e, 'w) store \<Rightarrow> ref \<times> ('t, 'e, 'w) store" where
  "Ok_at v s = (used s, s\<lparr>cells := (cells s)(used s := Ok v), used := Suc (used s)\<rparr>)"

definition Err_at :: "'e \<Rightarrow> ('t, 'e, 'w) store \<Rightarrow> ref \<times> ('t, 'e, 'w) store" where
  "Err_at e s = (used s, s\<lparr>cells := (cells s)(used s := Err e), used := Suc (used s)\<rparr>)"

definition Result_andThen_at ::
  "('t \<Rightarrow> ('t, 'e, 'w) store \<Rightarrow> ref \<times> ('t, 'e, 'w) store) \<Rightarrow> ref \<Rightarrow> ('t, 'e, 'w) store
     \<Rightarrow> ref \<times> ('t, 'e, 'w) store" where
  "Result_andThen_at fn self s =
     (case cells s self of Err e \<Rightarrow> (self, s) | Ok v \<Rightarrow> fn v s)"

definition Result_and_at ::
  "ref \<Rightarrow> ref \<Rightarrow> ('t, 'e, 'w) store \<Rightarrow> ref \<times> ('t, 'e, 'w) store" where
  "Result_and_at result self s =
     (case cells s self of Err e \<Rightarrow> (self, s) | Ok v \<Rightarrow> (result, s))"

definition Result_inspect_at ::
  "('t \<Rightarrow> ('t, 'e, 'w) store \<Rightarrow> ('t, 'e, 'w) store) \<Rightarrow> ref \<Rightarrow> ('t, 'e, 'w) store
     \<Rightarrow> ref \<times> ('t, 'e, 'w) store" where
  "Result_inspect_at fn self s =
     (case cells s self of Err e \<Rightarrow> (self, s) | Ok v \<Rightarrow> (self, fn v s))"

definition Result_inspectErr_at ::
  "('e \<Rightarrow> ('t, 'e, 'w) store \<Rightarrow> ('t, 'e, 'w) store) \<Rightarrow> ref \<Rightarrow> ('t, 'e, 'w) store
     \<Rightarrow> ref \<times> ('t, 'e, 'w) store" where
  "Result_inspectErr_at fn self s =
     (case cells s self of Ok v \<Rightarrow> (self, s) | Err e \<Rightarrow> (self, fn e s))"

definition Result_or_at ::
  "ref \<Rightarrow> ref \<Rightarrow> ('t, 'e, 'w) store \<Rightarrow> ref \<times> ('t, 'e, 'w) store" where
  "Result_or_at other self s =
     (case cells s self of Err e \<Rightarrow> (other, s) | Ok v \<Rightarrow> (self, s))"

section \<open>The variant tests\<close>

lemma isErr_not_isOk: "isErr r = (\<not> isOk r)"
  by (cases r) simp_all

lemma isOk_iff: "isOk r \<longleftrightarrow> (\<exists>v. r = Ok v)"
  by (cases r) simp_all

lemma isErr_iff: "isErr r \<longleftrightarrow> (\<exists>e. r = Err e)"
  by (cases r) simp_all

section \<open>combine\<close>

lemma combine_loop_all_Ok: "combine_loop acc (map Ok vs) = Ok (acc @ vs)"
  by (induction vs arbitrary: acc) simp_all

lemma combine_loop_first_Err: "combine_loop acc (map Ok vs @ Err e # rest) = Err e"
  by (induction vs arbitrary: acc) simp_all

lemma all_isOk_shape: "(\<forall>r \<in> set results. isOk r) \<Longrightarrow> \<exists>vs. results = map Ok vs"
proof (induction results)
  case Nil
  show ?case by simp
next
  case (Cons r results)
  then obtain vs where vs: "results = map Ok vs" by auto
  from Cons.prems obtain v where "r = Ok v" by (auto simp: isOk_iff)
  with vs have "r # results = map Ok (v # vs)" by simp
  then show ?case by (rule exI)
qed

lemma some_isErr_shape:
  "\<not> (\<forall>r \<in> set results. isOk r) \<Longrightarrow> \<exists>vs e rest. results = map Ok vs @ Err e # rest"
proof (induction results)
  case Nil
  then show ?case by simp
next
  case (Cons r results)
  show ?case
  proof (cases r)
    case (Err e)
    then have "r # results = map Ok [] @ Err e # results" by simp
    then show ?thesis by fast
  next
    case (Ok v)
    with Cons.prems have "\<not> (\<forall>r \<in> set results. isOk r)" by simp
    with Cons.IH obtain vs e rest where "results = map Ok vs @ Err e # rest" by blast
    with Ok have "r # results = map Ok (v # vs) @ Err e # rest" by simp
    then show ?thesis by fast
  qed
qed

text \<open>
  C1. For every list of results, \<open>combine\<close> returns \<open>Ok\<close> of the list of all the
  values, in the order of the arguments, when every argument is \<open>Ok\<close>. Otherwise the
  arguments are some \<open>Ok\<close>s, then a first \<open>Err e\<close>, then anything, and \<open>combine\<close>
  returns \<open>Err e\<close>: the error of the first failure from the left, with nothing of the
  later ones in it.
\<close>

theorem combine_all_or_first_failure:
  "(list_all isOk results \<longrightarrow>
      (\<exists>vs. results = map Ok vs \<and> Result_combine results = Ok vs)) \<and>
   (\<not> list_all isOk results \<longrightarrow>
      (\<exists>vs e rest. results = map Ok vs @ Err e # rest \<and> Result_combine results = Err e))"
proof (intro conjI impI)
  assume "list_all isOk results"
  then have "\<forall>r \<in> set results. isOk r" by (simp add: list_all_iff)
  then obtain vs where "results = map Ok vs" using all_isOk_shape by blast
  moreover from this have "Result_combine results = Ok vs"
    using combine_loop_all_Ok [of "[]" vs] by (simp add: Result_combine_def)
  ultimately show "\<exists>vs. results = map Ok vs \<and> Result_combine results = Ok vs" by blast
next
  assume "\<not> list_all isOk results"
  then have "\<not> (\<forall>r \<in> set results. isOk r)" by (simp add: list_all_iff)
  then obtain vs e rest where shape: "results = map Ok vs @ Err e # rest"
    using some_isErr_shape by blast
  then have "Result_combine results = Err e"
    using combine_loop_first_Err [of "[]" vs e rest] by (simp add: Result_combine_def)
  with shape
  show "\<exists>vs e rest. results = map Ok vs @ Err e # rest \<and> Result_combine results = Err e"
    by blast
qed

text \<open>
  The witness: the two examples \<^verbatim>\<open>combine(Ok(1), Ok("x"))\<close> and
  \<^verbatim>\<open>combine(Ok(5), Err("a"), Err("b"))\<close>.
\<close>

theorem combine_all_or_first_failure_witness:
  "list_all isOk [Ok (Inl 1), Ok (Inr ''x'') :: (int + string, string) Result] \<and>
   Result_combine [Ok (Inl 1), Ok (Inr ''x'') :: (int + string, string) Result]
     = Ok [Inl 1, Inr ''x''] \<and>
   \<not> list_all isOk [Ok 5, Err ''a'', Err ''b'' :: (int, string) Result] \<and>
   Result_combine [Ok 5, Err ''a'', Err ''b'' :: (int, string) Result] = Err ''a''"
  using combine_all_or_first_failure
          [of "[Ok (Inl 1), Ok (Inr ''x'') :: (int + string, string) Result]"]
        combine_all_or_first_failure
          [of "[Ok 5, Err ''a'', Err ''b'' :: (int, string) Result]"]
  by (simp add: Result_combine_def)

section \<open>Mapping with a default\<close>

text \<open>
  C2. \<open>mapOr default f\<close> returns \<open>Ok (f value)\<close> on \<open>Ok value\<close> and \<open>Ok default\<close>
  on an \<open>Err\<close>; \<open>mapOrElse onErr onOk\<close> returns \<open>Ok (onOk value)\<close> and
  \<open>Ok (onErr error)\<close>. Whatever the container, the result is an \<open>Ok\<close>: a
  \<open>Result\<close> by its type, never the bare value, and never an \<open>Err\<close>.
\<close>

theorem mapOr_mapOrElse_wrap_in_Ok:
  "Result_mapOr defaultValue f (Ok v) = Ok (f v) \<and>
   Result_mapOr defaultValue f (Err e) = Ok defaultValue \<and>
   Result_mapOrElse onErr onOk (Ok v) = Ok (onOk v) \<and>
   Result_mapOrElse onErr onOk (Err e) = Ok (onErr e) \<and>
   isOk (Result_mapOr defaultValue f self) \<and>
   \<not> isErr (Result_mapOr defaultValue f self) \<and>
   isOk (Result_mapOrElse onErr onOk self) \<and>
   \<not> isErr (Result_mapOrElse onErr onOk self)"
  by (cases self) simp_all

theorem mapOr_mapOrElse_wrap_in_Ok_witness:
  "Result_mapOr 0 (\<lambda>v. v * v) (Ok (5::int) :: (int, string) Result) = Ok 25 \<and>
   Result_mapOr 0 (\<lambda>v. v * v) (Err ''Oh no'' :: (int, string) Result) = Ok 0 \<and>
   Result_mapOrElse length (\<lambda>v. nat (v * v)) (Ok (5::int) :: (int, string) Result) = Ok 25 \<and>
   Result_mapOrElse length (\<lambda>v. nat (v * v)) (Err ''Oh no'' :: (int, string) Result) = Ok 5"
  using mapOr_mapOrElse_wrap_in_Ok
          [where defaultValue = 0 and f = "\<lambda>v. v * v" and v = "5::int" and e = "''Oh no''"
             and onErr = length and onOk = "\<lambda>v. nat (v * v)"]
  by simp

section \<open>The bridges between the two containers\<close>

lemma Option_transpose_Result_transpose: "Option_transpose (Result_transpose r) = r"
  by (cases r rule: Result_transpose.cases) simp_all

lemma Result_transpose_Option_transpose: "Result_transpose (Option_transpose x) = x"
  by (cases x rule: Option_transpose.cases) simp_all

text \<open>
  C3. \<open>Result.transpose\<close> maps \<open>Ok (Some v)\<close> to \<open>Some (Ok v)\<close>, \<open>Ok None\<close> to
  \<open>None\<close> and \<open>Err e\<close> to \<open>Some (Err e)\<close>. \<open>Option.transpose\<close> undoes it and
  is undone by it, on every value of the two nested types: the two functions are
  inverses of each other.
\<close>

theorem transpose_mutual_inverses:
  "Result_transpose (Ok (Some v)) = Some (Ok v) \<and>
   Result_transpose (Ok None) = None \<and>
   Result_transpose (Err e) = Some (Err e) \<and>
   Option_transpose (Result_transpose r) = r \<and>
   Result_transpose (Option_transpose x) = x"
  by (simp add: Option_transpose_Result_transpose Result_transpose_Option_transpose)

theorem transpose_mutual_inverses_witness:
  "Result_transpose (Ok (Some 5) :: (int option, string) Result) = Some (Ok 5) \<and>
   Option_transpose (Some (Ok 5) :: (int, string) Result option) = Ok (Some 5) \<and>
   Result_transpose (Ok None :: (int option, string) Result) = None \<and>
   Option_transpose (None :: (int, string) Result option) = Ok None \<and>
   Result_transpose (Err ''e'' :: (int option, string) Result) = Some (Err ''e'') \<and>
   Option_transpose (Some (Err ''e'') :: (int, string) Result option) = Err ''e''"
  using transpose_mutual_inverses [where v = "5::int" and e = "''e''"
          and r = "Ok (Some 5) :: (int option, string) Result"
          and x = "Some (Err ''e'') :: (int, string) Result option"]
  by simp

text \<open>
  C8. \<open>okOr e\<close> followed by \<open>ok\<close> gives back the option it started from:
  \<open>Some v\<close> comes back as \<open>Some v\<close> and \<open>None\<close> as \<open>None\<close>, whatever the error
  \<open>e\<close>. \<open>ok\<close> maps \<open>Ok v\<close> to \<open>Some v\<close> and \<open>Err e\<close> to \<open>None\<close>.
\<close>

theorem okOr_then_ok_round_trip:
  "Result_ok (Option_okOr e (Some v)) = Some v \<and>
   Result_ok (Option_okOr e None) = None \<and>
   Result_ok (Option_okOr e opt) = opt \<and>
   Result_ok (Ok v) = Some v \<and>
   Result_ok (Err e) = None"
  by (cases opt) simp_all

theorem okOr_then_ok_round_trip_witness:
  "Result_ok (Option_okOr ''Oh no'' (Some (5::int))) = Some 5 \<and>
   Result_ok (Option_okOr ''Oh no'' (None :: int option)) = None"
  using okOr_then_ok_round_trip [where e = "''Oh no''" and v = "5::int" and opt = None]
  by simp

text \<open>
  C10. Of \<open>ok r\<close> and \<open>err r\<close> exactly one is a \<open>Some\<close>, and it holds the payload
  of \<open>r\<close>: \<open>ok (Ok v) = Some v\<close> and \<open>err (Ok v) = None\<close>, \<open>ok (Err e) = None\<close>
  and \<open>err (Err e) = Some e\<close>.
\<close>

theorem ok_err_partition:
  "Option_isSome (Result_ok r) \<noteq> Option_isSome (Result_err r) \<and>
   Option_isNone (Result_ok r) \<noteq> Option_isNone (Result_err r) \<and>
   Result_ok (Ok v) = Some v \<and> Result_err (Ok v) = None \<and>
   Result_ok (Err e) = None \<and> Result_err (Err e) = Some e"
  by (cases r) simp_all

theorem ok_err_partition_witness:
  "Option_isSome (Result_ok (Ok 5 :: (int, string) Result)) \<and>
   Option_isNone (Result_err (Ok 5 :: (int, string) Result)) \<and>
   Result_ok (Err ''Oh no'' :: (int, string) Result) = None \<and>
   Result_err (Err ''Oh no'' :: (int, string) Result) = Some ''Oh no''"
  using ok_err_partition [where r = "Ok 5 :: (int, string) Result" and e = "''Oh no''"]
  by simp

section \<open>combine without arguments\<close>

text \<open>
  C9. \<open>combine\<close> of no arguments is \<open>Ok\<close> of the empty list: not an \<open>Err\<close>, and
  nothing is thrown.
\<close>

theorem combine_no_arguments:
  "Result_combine [] = Ok [] \<and> isOk (Result_combine []) \<and> \<not> isErr (Result_combine [])"
  by (simp add: Result_combine_def)

section \<open>Identity of the returned container, and callbacks that do not run\<close>

lemma Result_inspect_self: "Result_inspect fn r = r"
  by (cases r) simp_all

lemma Result_inspectErr_self: "Result_inspectErr fn r = r"
  by (cases r) simp_all

text \<open>
  A constructor call makes an object that none of the references in use points to, and
  leaves the objects behind those references alone: a copy of a container is another
  reference, even where the content is the same.
\<close>

lemma Ok_at_new_object:
  "self < used s \<Longrightarrow>
   fst (Ok_at v s) \<noteq> self \<and>
   cells (snd (Ok_at v s)) (fst (Ok_at v s)) = Ok v \<and>
   cells (snd (Ok_at v s)) self = cells s self"
  by (simp add: Ok_at_def)

lemma Err_at_new_object:
  "self < used s \<Longrightarrow>
   fst (Err_at e s) \<noteq> self \<and>
   cells (snd (Err_at e s)) (fst (Err_at e s)) = Err e \<and>
   cells (snd (Err_at e s)) self = cells s self"
  by (simp add: Err_at_def)

text \<open>
  The functions on references compute what the functions on values compute, read in
  the store the call started from.
\<close>

lemma Result_inspect_at_value:
  "cells s (fst (Result_inspect_at fn self s)) = Result_inspect f (cells s self)"
  by (simp add: Result_inspect_at_def Result_inspect_self split: Result.split)

lemma Result_inspectErr_at_value:
  "cells s (fst (Result_inspectErr_at fn self s)) = Result_inspectErr f (cells s self)"
  by (simp add: Result_inspectErr_at_def Result_inspectErr_self split: Result.split)

lemma Result_or_at_value:
  "cells s (fst (Result_or_at other self s)) = Result_or (cells s other) (cells s self)"
  by (simp add: Result_or_at_def split: Result.split)

lemma Result_and_at_value:
  "cells s (fst (Result_and_at result self s)) = Result_and (cells s result) (cells s self)"
  by (simp add: Result_and_at_def split: Result.split)

lemma Result_andThen_at_value:
  "Result_andThen_at fn self s = (r', s') \<Longrightarrow>
   cells s' r' = Result_andThen (\<lambda>v. cells (snd (fn v s)) (fst (fn v s))) (cells s self)"
  by (auto simp: Result_andThen_at_def split: Result.splits)

text \<open>
  C6. \<open>inspect f\<close> and \<open>inspectErr f\<close> return the reference \<open>self\<close> they were
  given, for every container, every callback and every store; \<open>or other\<close> on an
  \<open>Ok\<close> returns the reference \<open>self\<close> and leaves the store as it was. The returned
  container is the input object itself, not another object with the same content. On
  values, the three functions return their input.
\<close>

theorem inspect_inspectErr_or_return_self:
  "fst (Result_inspect_at fn self s) = self \<and>
   fst (Result_inspectErr_at fnErr self s) = self \<and>
   (isOk (cells s self) \<longrightarrow> Result_or_at other self s = (self, s)) \<and>
   Result_inspect f r = r \<and>
   Result_inspectErr g r = r \<and>
   Result_or r' (Ok v) = Ok v"
  by (simp add: Result_inspect_at_def Result_inspectErr_at_def Result_or_at_def
        Result_inspect_self Result_inspectErr_self split: Result.split)

text \<open>
  The witness: two objects with the same content \<open>Ok 5\<close>, at the references \<open>0\<close>
  and \<open>1\<close>, and a world that lists the calls of the callback. \<open>or\<close> with the
  second object as \<open>other\<close>, on the first, returns \<open>0\<close>; \<open>inspect\<close> on the first
  returns \<open>0\<close> after one call of the callback on \<open>5\<close>.
\<close>

theorem inspect_inspectErr_or_return_self_witness:
  "isOk (cells \<lparr>cells = (\<lambda>p. Err ''none'')(0 := Ok (5::int), 1 := Ok 5),
                used = 2, world = []\<rparr> 0) \<and>
   Result_or_at 1 0 \<lparr>cells = (\<lambda>p. Err ''none'')(0 := Ok (5::int), 1 := Ok 5),
                      used = 2, world = []\<rparr>
     = (0, \<lparr>cells = (\<lambda>p. Err ''none'')(0 := Ok (5::int), 1 := Ok 5),
            used = 2, world = []\<rparr>) \<and>
   Result_inspect_at (\<lambda>v s. s\<lparr>world := world s @ [v]\<rparr>) 0
       \<lparr>cells = (\<lambda>p. Err ''none'')(0 := Ok (5::int), 1 := Ok 5), used = 2, world = []\<rparr>
     = (0, \<lparr>cells = (\<lambda>p. Err ''none'')(0 := Ok (5::int), 1 := Ok 5),
            used = 2, world = [5]\<rparr>)"
  using inspect_inspectErr_or_return_self
          [where s = "\<lparr>cells = (\<lambda>p. Err ''none'')(0 := Ok (5::int), 1 := Ok 5),
                       used = 2, world = []\<rparr>"
             and self = 0 and other = 1 and fn = "\<lambda>v s. s\<lparr>world := world s @ [v]\<rparr>"
             and fnErr = "\<lambda>e s. s" and f = id and g = id and r = "Ok (5::int)"
             and r' = "Err ''none''" and v = "5::int"]
  by (simp add: Result_inspect_at_def Result_inspectErr_at_def Result_or_at_def)

text \<open>
  C7. On an \<open>Err\<close>, \<open>and other\<close> and \<open>andThen f\<close> return that \<open>Err\<close>: the same
  reference, with the store untouched, so that \<open>f\<close>, whatever it does, has not run.
  On \<open>Ok v\<close>, \<open>and other\<close> returns \<open>other\<close> and \<open>andThen f\<close> returns what
  \<open>f v\<close> returns.
\<close>

theorem and_andThen_short_circuit:
  "Result_and other (Err e) = Err e \<and>
   Result_andThen f (Err e) = Err e \<and>
   Result_and other (Ok v) = other \<and>
   Result_andThen f (Ok v) = f v \<and>
   (cells s self = Err e' \<longrightarrow>
      Result_and_at result self s = (self, s) \<and> Result_andThen_at fn self s = (self, s)) \<and>
   (cells s self = Ok v' \<longrightarrow>
      Result_and_at result self s = (result, s) \<and> Result_andThen_at fn self s = fn v' s)"
  by (simp add: Result_and_at_def Result_andThen_at_def)

text \<open>
  The witness: a callback that lists its call in the world and makes a new object.
  Given an \<open>Err\<close> it leaves no trace; given \<open>Ok 5\<close> the call is listed and the
  new object is returned.
\<close>

theorem and_andThen_short_circuit_witness:
  "cells \<lparr>cells = (\<lambda>p. Err ''Oh no'')(1 := Ok (5::int)), used = 2, world = []\<rparr> 0
     = Err ''Oh no'' \<and>
   Result_andThen_at (\<lambda>v s. Ok_at (v * v) (s\<lparr>world := world s @ [v]\<rparr>)) 0
       \<lparr>cells = (\<lambda>p. Err ''Oh no'')(1 := Ok (5::int)), used = 2, world = []\<rparr>
     = (0, \<lparr>cells = (\<lambda>p. Err ''Oh no'')(1 := Ok (5::int)), used = 2, world = []\<rparr>) \<and>
   cells \<lparr>cells = (\<lambda>p. Err ''Oh no'')(1 := Ok (5::int)), used = 2, world = []\<rparr> 1
     = Ok 5 \<and>
   Result_andThen_at (\<lambda>v s. Ok_at (v * v) (s\<lparr>world := world s @ [v]\<rparr>)) 1
       \<lparr>cells = (\<lambda>p. Err ''Oh no'')(1 := Ok (5::int)), used = 2, world = []\<rparr>
     = (2, \<lparr>cells = (\<lambda>p. Err ''Oh no'')(1 := Ok 5, 2 := Ok 25), used = 3, world = [5]\<rparr>)"
  using and_andThen_short_circuit
          [where s = "\<lparr>cells = (\<lambda>p. Err ''Oh no'')(1 := Ok (5::int)), used = 2, world = []\<rparr>"
             and self = 0 and e' = "''Oh no''"
             and fn = "\<lambda>v s. Ok_at (v * v) (s\<lparr>world := world s @ [v]\<rparr>)",
           THEN conjunct2, THEN conjunct2, THEN conjunct2, THEN conjunct2, THEN conjunct1]
        and_andThen_short_circuit
          [where s = "\<lparr>cells = (\<lambda>p. Err ''Oh no'')(1 := Ok (5::int)), used = 2, world = []\<rparr>"
             and self = 1 and v' = 5
             and fn = "\<lambda>v s. Ok_at (v * v) (s\<lparr>world := world s @ [v]\<rparr>)",
           THEN conjunct2, THEN conjunct2, THEN conjunct2, THEN conjunct2, THEN conjunct2]
  by (simp add: Ok_at_def)

section \<open>The extractors\<close>




section \<open>Which operations throw\<close>

lemma extractors_throw_iff:
  "isl (Result_unwrap stringifyE r) = isErr r"
  "isl (Result_expect stringifyE message r) = isErr r"
  "isl (Result_unwrapErr stringifyT r) = isOk r"
  "isl (Result_expectErr stringifyT message r) = isOk r"
  by (cases r; simp split: sum.split)+

lemma Result_combine_all_Ok: "Result_combine (map Ok vs) = Ok vs"
  using combine_loop_all_Ok [of "[]" vs] by (simp add: Result_combine_def)

lemma Result_combine_first_Err: "Result_combine (map Ok vs @ Err e # rest) = Err e"
  using combine_loop_first_Err [of "[]" vs e rest] by (simp add: Result_combine_def)

text \<open>
  With a callback that returns, each function with a callback returns what its form
  of the section \<open>Result.ts\<close> returns.
\<close>

lemma cb_returning:
  "Result_isOkAnd_cb (\<lambda>v. Inr (p v)) r = Inr (Result_isOkAnd p r)"
  "Result_isErrAnd_cb (\<lambda>e. Inr (q e)) r = Inr (Result_isErrAnd q r)"
  "Result_map_cb (\<lambda>v. Inr (f v)) r = Inr (Result_map f r)"
  "Result_mapErr_cb (\<lambda>e. Inr (g e)) r = Inr (Result_mapErr g r)"
  "Result_mapOr_cb d (\<lambda>v. Inr (f v)) r = Inr (Result_mapOr d f r)"
  "Result_mapOrElse_cb (\<lambda>e. Inr (h e)) (\<lambda>v. Inr (f v)) r = Inr (Result_mapOrElse h f r)"
  "Result_andThen_cb (\<lambda>v. Inr (k v)) r = Inr (Result_andThen k r)"
  "Result_inspect_cb (\<lambda>v. Inr (i v)) r = Inr (Result_inspect i r)"
  "Result_inspectErr_cb (\<lambda>e. Inr (i' e)) r = Inr (Result_inspectErr i' r)"
  "Result_orElse_cb (\<lambda>e. Inr (j e)) r = Inr (Result_orElse j r)"
  "Result_unwrapOrElse_cb (\<lambda>e. Inr (c e)) r = Inr (Result_unwrapOrElse c r)"
  by (cases r; simp)+

text \<open>
  A function with a callback throws exactly when it calls the callback and the call
  throws, and it throws what the callback threw.
\<close>

lemma Result_isOkAnd_cb_throws:
  "Result_isOkAnd_cb p r = Inl x \<longleftrightarrow> (\<exists>v. r = Ok v \<and> p v = Inl x)"
  by (cases r) simp_all

lemma Result_isErrAnd_cb_throws:
  "Result_isErrAnd_cb q r = Inl x \<longleftrightarrow> (\<exists>e. r = Err e \<and> q e = Inl x)"
  by (cases r) simp_all

lemma Result_map_cb_throws:
  "Result_map_cb f r = Inl x \<longleftrightarrow> (\<exists>v. r = Ok v \<and> f v = Inl x)"
  by (cases r) (simp_all split: sum.split)

lemma Result_mapErr_cb_throws:
  "Result_mapErr_cb g r = Inl x \<longleftrightarrow> (\<exists>e. r = Err e \<and> g e = Inl x)"
  by (cases r) (simp_all split: sum.split)

lemma Result_mapOr_cb_throws:
  "Result_mapOr_cb d f r = Inl x \<longleftrightarrow> (\<exists>v. r = Ok v \<and> f v = Inl x)"
  by (cases r) (simp_all split: sum.split)

lemma Result_mapOrElse_cb_throws:
  "Result_mapOrElse_cb h f r = Inl x \<longleftrightarrow>
     (\<exists>v. r = Ok v \<and> f v = Inl x) \<or> (\<exists>e. r = Err e \<and> h e = Inl x)"
  by (cases r) (simp_all split: sum.split)

lemma Result_andThen_cb_throws:
  "Result_andThen_cb k r = Inl x \<longleftrightarrow> (\<exists>v. r = Ok v \<and> k v = Inl x)"
  by (cases r) simp_all

lemma Result_inspect_cb_throws:
  "Result_inspect_cb i r = Inl x \<longleftrightarrow> (\<exists>v. r = Ok v \<and> i v = Inl x)"
  by (cases r) (simp_all split: sum.split)

lemma Result_inspectErr_cb_throws:
  "Result_inspectErr_cb i' r = Inl x \<longleftrightarrow> (\<exists>e. r = Err e \<and> i' e = Inl x)"
  by (cases r) (simp_all split: sum.split)

lemma Result_orElse_cb_throws:
  "Result_orElse_cb j r = Inl x \<longleftrightarrow> (\<exists>e. r = Err e \<and> j e = Inl x)"
  by (cases r) simp_all

lemma Result_unwrapOrElse_cb_throws:
  "Result_unwrapOrElse_cb c r = Inl x \<longleftrightarrow> (\<exists>e. r = Err e \<and> c e = Inl x)"
  by (cases r) simp_all

text \<open>
  C4, as the code has it. \<open>unwrap\<close> and \<open>expect\<close> throw exactly on an \<open>Err\<close>
  and return the value of an \<open>Ok\<close>; \<open>unwrapErr\<close> and \<open>expectErr\<close> throw
  exactly on an \<open>Ok\<close> and return the error of an \<open>Err\<close>. No other operation
  throws of its own. One that takes a callback throws exactly when it calls the
  callback on the payload and that call throws, and then it throws what the callback
  threw; with a callback that returns, it returns what its form with returning
  callbacks returns. One that takes no callback returns on both variants, and what
  it returns is listed; among these, \<open>intoOk\<close> and \<open>intoErr\<close> return
  \<^verbatim>\<open>undefined\<close> on the other variant instead of throwing.
\<close>

theorem extractors_throw_others_only_with_their_callback:
  "(isl (Result_unwrap stringifyE r) \<longleftrightarrow> isErr r) \<and>
   (isl (Result_expect stringifyE message r) \<longleftrightarrow> isErr r) \<and>
   (isl (Result_unwrapErr stringifyT r) \<longleftrightarrow> isOk r) \<and>
   (isl (Result_expectErr stringifyT message r) \<longleftrightarrow> isOk r) \<and>
   Result_unwrap stringifyE (Ok v) = Inr v \<and>
   Result_expect stringifyE message (Ok v) = Inr v \<and>
   Result_unwrapErr stringifyT (Err e) = Inr e \<and>
   Result_expectErr stringifyT message (Err e) = Inr e \<and>
   (Result_isOkAnd_cb p r = Inl x \<longleftrightarrow> (\<exists>v. r = Ok v \<and> p v = Inl x)) \<and>
   (Result_isErrAnd_cb q r = Inl x \<longleftrightarrow> (\<exists>e. r = Err e \<and> q e = Inl x)) \<and>
   (Result_map_cb f r = Inl x \<longleftrightarrow> (\<exists>v. r = Ok v \<and> f v = Inl x)) \<and>
   (Result_mapErr_cb g r = Inl x \<longleftrightarrow> (\<exists>e. r = Err e \<and> g e = Inl x)) \<and>
   (Result_mapOr_cb d f r = Inl x \<longleftrightarrow> (\<exists>v. r = Ok v \<and> f v = Inl x)) \<and>
   (Result_mapOrElse_cb h f r = Inl x \<longleftrightarrow>
      (\<exists>v. r = Ok v \<and> f v = Inl x) \<or> (\<exists>e. r = Err e \<and> h e = Inl x)) \<and>
   (Result_andThen_cb k r = Inl x \<longleftrightarrow> (\<exists>v. r = Ok v \<and> k v = Inl x)) \<and>
   (Result_inspect_cb i r = Inl x \<longleftrightarrow> (\<exists>v. r = Ok v \<and> i v = Inl x)) \<and>
   (Result_inspectErr_cb i' r = Inl x \<longleftrightarrow> (\<exists>e. r = Err e \<and> i' e = Inl x)) \<and>
   (Result_orElse_cb j r = Inl x \<longleftrightarrow> (\<exists>e. r = Err e \<and> j e = Inl x)) \<and>
   (Result_unwrapOrElse_cb c r = Inl x \<longleftrightarrow> (\<exists>e. r = Err e \<and> c e = Inl x)) \<and>
   Result_isOkAnd_cb (\<lambda>v. Inr (p' v)) r = Inr (Result_isOkAnd p' r) \<and>
   Result_isErrAnd_cb (\<lambda>e. Inr (q' e)) r = Inr (Result_isErrAnd q' r) \<and>
   Result_map_cb (\<lambda>v. Inr (f' v)) r = Inr (Result_map f' r) \<and>
   Result_mapErr_cb (\<lambda>e. Inr (g' e)) r = Inr (Result_mapErr g' r) \<and>
   Result_mapOr_cb d (\<lambda>v. Inr (f' v)) r = Inr (Result_mapOr d f' r) \<and>
   Result_mapOrElse_cb (\<lambda>e. Inr (h' e)) (\<lambda>v. Inr (f' v)) r
     = Inr (Result_mapOrElse h' f' r) \<and>
   Result_andThen_cb (\<lambda>v. Inr (k' v)) r = Inr (Result_andThen k' r) \<and>
   Result_inspect_cb (\<lambda>v. Inr (f' v)) r = Inr (Result_inspect f' r) \<and>
   Result_inspectErr_cb (\<lambda>e. Inr (g' e)) r = Inr (Result_inspectErr g' r) \<and>
   Result_orElse_cb (\<lambda>e. Inr (j' e)) r = Inr (Result_orElse j' r) \<and>
   Result_unwrapOrElse_cb (\<lambda>e. Inr (c' e)) r = Inr (Result_unwrapOrElse c' r) \<and>
   isOk (Ok v) \<and> \<not> isOk (Err e) \<and> \<not> isErr (Ok v) \<and> isErr (Err e) \<and>
   Result_combine (map Ok vs) = Ok vs \<and>
   Result_combine (map Ok vs @ Err e # rest) = Err e \<and>
   Result_and other (Ok v) = other \<and> Result_and other (Err e) = Err e \<and>
   Result_ok (Ok v) = Some v \<and> Result_ok (Err e) = None \<and>
   Result_err (Ok v) = None \<and> Result_err (Err e) = Some e \<and>
   Result_flatten (Ok (Ok v)) = Ok v \<and> Result_flatten (Ok (Err e)) = Err e \<and>
   Result_flatten (Err e) = Err e \<and>
   Result_intoOk (Ok v) = Defined v \<and> Result_intoOk (Err e) = Undefined \<and>
   Result_intoErr (Ok v) = Undefined \<and> Result_intoErr (Err e) = Defined e \<and>
   Result_or alt (Ok v) = Ok v \<and> Result_or alt (Err e) = alt \<and>
   Result_transpose (Ok (Some v)) = Some (Ok v) \<and> Result_transpose (Ok None) = None \<and>
   Result_transpose (Err e) = Some (Err e) \<and>
   Result_unwrapOr d' (Ok v) = v \<and> Result_unwrapOr d' (Err e) = d'"
  by (simp only: extractors_throw_iff cb_returning Result_combine_all_Ok
        Result_combine_first_Err Result_isOkAnd_cb_throws Result_isErrAnd_cb_throws
        Result_map_cb_throws Result_mapErr_cb_throws Result_mapOr_cb_throws
        Result_mapOrElse_cb_throws Result_andThen_cb_throws Result_inspect_cb_throws
        Result_inspectErr_cb_throws Result_orElse_cb_throws Result_unwrapOrElse_cb_throws)
     simp

text \<open>
  The witness: \<open>unwrap\<close> and \<open>unwrapErr\<close> on both variants, and \<open>map\<close> and
  \<open>orElse\<close> with a callback that throws on \<open>0\<close> and returns otherwise.
\<close>

theorem extractors_throw_others_only_with_their_callback_witness:
  "isl (Result_unwrap JSON_stringify (Err JNull :: (int, js_value) Result)) \<and>
   \<not> isl (Result_unwrap JSON_stringify (Ok 5 :: (int, js_value) Result)) \<and>
   Result_map_cb (\<lambda>v. if v = 0 then Inl (Error ''zero'') else Inr (100 div v))
       (Ok 0 :: (int, int) Result) = Inl (Error ''zero'') \<and>
   Result_map_cb (\<lambda>v. if v = 0 then Inl (Error ''zero'') else Inr (100 div v))
       (Ok 5 :: (int, int) Result) = Inr (Ok 20) \<and>
   Result_map_cb (\<lambda>v. if v = 0 then Inl (Error ''zero'') else Inr (100 div v))
       (Err 0 :: (int, int) Result) = Inr (Err 0)"
  using extractors_throw_others_only_with_their_callback
          [where r = "Err JNull :: (int, js_value) Result" and stringifyE = JSON_stringify,
           THEN conjunct1]
        extractors_throw_others_only_with_their_callback
          [where r = "Ok 5 :: (int, js_value) Result" and stringifyE = JSON_stringify,
           THEN conjunct1]
  by simp

text \<open>
  C4 as it is written fails: \<open>map\<close> is not one of the four extractors, and with a
  callback that throws it throws on an \<open>Ok\<close>.
\<close>

theorem other_combinator_throws_counterexample:
  "Result_map_cb (\<lambda>v. Inl (Error ''boom'')) (Ok 5 :: (int, string) Result)
     = (Inl (Error ''boom'') :: error + (int, string) Result) \<and>
   isl (Result_map_cb (\<lambda>v. Inl (Error ''boom'') :: error + int)
          (Ok 5 :: (int, string) Result))"
  by simp

end
